theory Spec2Isabelle
  imports Main
begin

section \<open>Values, calls and completions\<close>

text \<open>
  The two scripts of \<^verbatim>\<open>pkg/worker.js\<close> are glue code: they call functions imported
  from the generated wasm bindings, read \<^verbatim>\<open>navigator.hardwareConcurrency\<close> and log to
  \<^verbatim>\<open>console.error\<close>. The embedding keeps the glue as it is written and takes
  everything imported as a parameter.

  JavaScript values that pass through the glue. Numbers stand for the integral values
  the scripts handle (ports, a thread count); the glue never computes with them.
\<close>

datatype jsval =
    JUndefined
  | JNull
  | JBool bool
  | JNum int
  | JStr string
  | JObj "(string \<times> jsval) list"

text \<open>
  What the glue does to the outside world, one event per call, in program order.
  \<open>ModuleInit\<close> is the default export \<^verbatim>\<open>init\<close> of the bindings module; \<open>WasmMain\<close>
  carries the argument list of the call as written at the call site.
\<close>

datatype event =
    ModuleInit
  | SetupTracingWeb jsval
  | InitLogging jsval
  | InitThreadPool jsval
  | WasmMain "jsval list"
  | WasmStart
  | ConsoleError jsval

text \<open>
  How an awaited call, or an \<^verbatim>\<open>async\<close> function as a whole, ends: its promise is
  fulfilled with a value, rejected with the thrown value, or never settles.
\<close>

datatype completion =
    is_Resolved: Resolved jsval
  | is_Rejected: Rejected jsval
  | Pending

text \<open>
  The world the glue runs in: the calls made so far, and the own properties of the
  \<^verbatim>\<open>Worker\<close> instance (\<^verbatim>\<open>this\<close>). The class declares no field and no constructor, so
  \<^verbatim>\<open>new Worker()\<close> has none.
\<close>

record world =
  trace :: "event list"
  this_props :: "(string \<times> jsval) list"

definition new_Worker :: world where
  "new_Worker = \<lparr>trace = [], this_props = []\<rparr>"

text \<open>
  The imports and the host. Each imported function may answer differently from call to
  call, so its completion is a function of the calls made before it (and of its
  arguments); an arbitrary \<open>env\<close> therefore covers every deterministic engine.
  \<open>init\<close> is the default export of the bindings module.
\<close>

record env =
  init :: "event list \<Rightarrow> completion"
  setup_tracing_web :: "event list \<Rightarrow> jsval \<Rightarrow> completion"
  init_logging :: "event list \<Rightarrow> jsval \<Rightarrow> completion"
  initThreadPool :: "event list \<Rightarrow> jsval \<Rightarrow> completion"
  wasm_main :: "event list \<Rightarrow> jsval list \<Rightarrow> completion"
  wasm_start :: "event list \<Rightarrow> completion"
  hardwareConcurrency :: jsval

section \<open>Control flow of an async function body\<close>

type_synonym js = "world \<Rightarrow> completion \<times> world"

text \<open>A call of an imported function: it is recorded, and answers from the history.\<close>

definition call :: "event \<Rightarrow> (event list \<Rightarrow> completion) \<Rightarrow> js" where
  "call ev f w = (f (trace w), w\<lparr>trace := trace w @ [ev]\<rparr>)"

text \<open>
  Sequencing \<^verbatim>\<open>await m; k\<close> (and \<^verbatim>\<open>m; k\<close> for a synchronous call): the rest runs
  only when \<open>m\<close> is fulfilled; a rejection propagates, and a promise that never settles
  suspends the body for good.
\<close>

definition await :: "js \<Rightarrow> (jsval \<Rightarrow> js) \<Rightarrow> js" where
  "await m k w =
     (case m w of
        (Resolved v, w') \<Rightarrow> k v w'
      | (Rejected e, w') \<Rightarrow> (Rejected e, w')
      | (Pending, w') \<Rightarrow> (Pending, w'))"

definition try_catch :: "js \<Rightarrow> (jsval \<Rightarrow> js) \<Rightarrow> js" where
  "try_catch body handler w =
     (case body w of
        (Rejected e, w') \<Rightarrow> handler e w'
      | (Resolved v, w') \<Rightarrow> (Resolved v, w')
      | (Pending, w') \<Rightarrow> (Pending, w'))"

definition throw :: "jsval \<Rightarrow> js" where
  "throw e w = (Rejected e, w)"

text \<open>Falling off the end of a function body: the promise is fulfilled with \<^verbatim>\<open>undefined\<close>.\<close>

definition end_of_body :: js where
  "end_of_body w = (Resolved JUndefined, w)"

definition console_error :: "jsval \<Rightarrow> js" where
  "console_error e w = (Resolved JUndefined, w\<lparr>trace := trace w @ [ConsoleError e]\<rparr>)"

section \<open>The RPC worker: class Worker\<close>

text \<open>The object literal \<^verbatim>\<open>obj\<close> built in \<^verbatim>\<open>Worker.init\<close>.\<close>

definition obj :: jsval where
  "obj = JObj [(''level'', JStr ''Trace''),
               (''crate_filters'', JUndefined),
               (''span_events'', JUndefined)]"

text \<open>
  \<^verbatim>\<open>async init()\<close>: module init, \<^verbatim>\<open>init_logging(obj)\<close>, then the thread pool, all inside
  one \<^verbatim>\<open>try\<close>; the handler logs and rethrows. The call of \<^verbatim>\<open>setup_tracing_web\<close> is
  commented out in the source and is no part of the body.
\<close>

definition Worker_init :: "env \<Rightarrow> js" where
  "Worker_init \<E> =
     try_catch
       (await (call ModuleInit (init \<E>)) (\<lambda>_.
        await (call (InitLogging obj) (\<lambda>h. init_logging \<E> h obj)) (\<lambda>_.
        await (call (InitThreadPool (hardwareConcurrency \<E>))
                 (\<lambda>h. initThreadPool \<E> h (hardwareConcurrency \<E>))) (\<lambda>_.
        end_of_body))))
       (\<lambda>e. await (console_error e) (\<lambda>_. throw e))"

text \<open>
  \<^verbatim>\<open>async run(ws_ip, ws_port, wasm_to_server_port, wasm_to_verifier_port,
  wasm_to_native_port)\<close>: one awaited call of \<^verbatim>\<open>wasm_main\<close> inside a \<^verbatim>\<open>try\<close>; the
  handler logs and rethrows. The body has no \<^verbatim>\<open>return\<close>.
\<close>

definition Worker_run :: "env \<Rightarrow> jsval \<Rightarrow> jsval \<Rightarrow> jsval \<Rightarrow> jsval \<Rightarrow> jsval \<Rightarrow> js" where
  "Worker_run \<E> ws_ip ws_port wasm_to_server_port wasm_to_verifier_port wasm_to_native_port =
     try_catch
       (await (call (WasmMain [ws_ip, ws_port, wasm_to_server_port,
                               wasm_to_verifier_port, wasm_to_native_port])
                 (\<lambda>h. wasm_main \<E> h [ws_ip, ws_port, wasm_to_server_port,
                                       wasm_to_verifier_port, wasm_to_native_port])) (\<lambda>_.
        end_of_body))
       (\<lambda>e. await (console_error e) (\<lambda>_. throw e))"

section \<open>The bootstrap prover worker\<close>

text \<open>
  \<^verbatim>\<open>async function run()\<close> of the first script: three awaited calls and no \<^verbatim>\<open>try\<close>;
  the call of \<^verbatim>\<open>setup_tracing_web\<close> is commented out.
\<close>

definition run :: "env \<Rightarrow> js" where
  "run \<E> =
     await (call ModuleInit (init \<E>)) (\<lambda>_.
     await (call (InitThreadPool (hardwareConcurrency \<E>))
              (\<lambda>h. initThreadPool \<E> h (hardwareConcurrency \<E>))) (\<lambda>_.
     await (call WasmStart (wasm_start \<E>)) (\<lambda>_.
     end_of_body)))"

text \<open>
  The script's only top-level statement is \<^verbatim>\<open>run();\<close>: evaluating the module calls
  \<open>run\<close> and drops the promise.
\<close>

definition prover_worker_script :: "env \<Rightarrow> world \<Rightarrow> world" where
  "prover_worker_script \<E> w = snd (run \<E> w)"

section \<open>Observations\<close>

text \<open>The events a computation adds to a history \<open>h\<close>.\<close>

definition emitted :: "event list \<Rightarrow> world \<Rightarrow> event list" where
  "emitted h w = drop (length h) (trace w)"

fun is_InitThreadPool :: "event \<Rightarrow> bool" where
  "is_InitThreadPool (InitThreadPool n) = True"
| "is_InitThreadPool _ = False"

fun is_WasmMain :: "event \<Rightarrow> bool" where
  "is_WasmMain (WasmMain args) = True"
| "is_WasmMain _ = False"

fun is_tracing_install :: "event \<Rightarrow> bool" where
  "is_tracing_install (InitLogging c) = True"
| "is_tracing_install (SetupTracingWeb l) = True"
| "is_tracing_install _ = False"

fun is_ConsoleError :: "event \<Rightarrow> bool" where
  "is_ConsoleError (ConsoleError e) = True"
| "is_ConsoleError _ = False"

section \<open>Engines used as concrete inputs\<close>

text \<open>An engine on an eight-way host whose every call succeeds.\<close>

definition engine_ok :: env where
  "engine_ok =
     \<lparr>init = (\<lambda>h. Resolved JUndefined),
      setup_tracing_web = (\<lambda>h l. Resolved JUndefined),
      init_logging = (\<lambda>h c. Resolved JUndefined),
      initThreadPool = (\<lambda>h n. Resolved JUndefined),
      wasm_main = (\<lambda>h args. Resolved JUndefined),
      wasm_start = (\<lambda>h. Resolved JUndefined),
      hardwareConcurrency = JNum 8\<rparr>"

text \<open>The same engine, whose session entry point returns a completion value.\<close>

definition engine_result :: env where
  "engine_result = engine_ok\<lparr>wasm_main := (\<lambda>h args. Resolved (JStr ''session-done''))\<rparr>"

text \<open>An engine whose pool start and whose session both fail.\<close>

definition engine_failing :: env where
  "engine_failing =
     engine_ok\<lparr>initThreadPool := (\<lambda>h n. Rejected (JStr ''PoolStartFailed'')),
               wasm_main := (\<lambda>h args. Rejected (JStr ''ConnectionRefused''))\<rparr>"

text \<open>An engine whose pool start never settles.\<close>

definition engine_pool_pending :: env where
  "engine_pool_pending = engine_ok\<lparr>initThreadPool := (\<lambda>h n. Pending)\<rparr>"

text \<open>An engine whose module fails to load, and one whose logging install throws.\<close>

definition engine_no_module :: env where
  "engine_no_module = engine_ok\<lparr>init := (\<lambda>h. Rejected (JStr ''CompileError''))\<rparr>"

definition engine_no_logging :: env where
  "engine_no_logging = engine_ok\<lparr>init_logging := (\<lambda>h c. Rejected (JStr ''LoggingFailed''))\<rparr>"

text \<open>
  An exception \<open>e\<close> is raised inside \<open>init\<close>, called on world \<open>w\<close>: one of the three calls
  of its body is reached (the calls before it were fulfilled) and rejects with \<open>e\<close>.
\<close>

definition raised_in_init :: "env \<Rightarrow> world \<Rightarrow> jsval \<Rightarrow> bool" where
  "raised_in_init \<E> w e =
     (init \<E> (trace w) = Rejected e
      \<or> (is_Resolved (init \<E> (trace w))
          \<and> init_logging \<E> (trace w @ [ModuleInit]) obj = Rejected e)
      \<or> (is_Resolved (init \<E> (trace w))
          \<and> is_Resolved (init_logging \<E> (trace w @ [ModuleInit]) obj)
          \<and> initThreadPool \<E> (trace w @ [ModuleInit, InitLogging obj])
                (hardwareConcurrency \<E>) = Rejected e))"

section \<open>Shared facts\<close>

lemmas js_defs = call_def await_def try_catch_def throw_def end_of_body_def console_error_def

lemmas engine_defs = engine_ok_def engine_result_def engine_failing_def
  engine_pool_pending_def engine_no_module_def engine_no_logging_def

lemma Worker_run_unfold:
  "Worker_run \<E> a b c d e w =
     (case wasm_main \<E> (trace w) [a, b, c, d, e] of
        Resolved v \<Rightarrow> (Resolved JUndefined, w\<lparr>trace := trace w @ [WasmMain [a, b, c, d, e]]\<rparr>)
      | Rejected x \<Rightarrow>
          (Rejected x, w\<lparr>trace := trace w @ [WasmMain [a, b, c, d, e], ConsoleError x]\<rparr>)
      | Pending \<Rightarrow> (Pending, w\<lparr>trace := trace w @ [WasmMain [a, b, c, d, e]]\<rparr>))"
  by (simp add: Worker_run_def js_defs split: completion.splits)

lemma Worker_init_unfold:
  "Worker_init \<E> w =
     (case init \<E> (trace w) of
        Rejected x \<Rightarrow> (Rejected x, w\<lparr>trace := trace w @ [ModuleInit, ConsoleError x]\<rparr>)
      | Pending \<Rightarrow> (Pending, w\<lparr>trace := trace w @ [ModuleInit]\<rparr>)
      | Resolved u \<Rightarrow>
         (case init_logging \<E> (trace w @ [ModuleInit]) obj of
            Rejected x \<Rightarrow>
              (Rejected x, w\<lparr>trace := trace w @ [ModuleInit, InitLogging obj, ConsoleError x]\<rparr>)
          | Pending \<Rightarrow> (Pending, w\<lparr>trace := trace w @ [ModuleInit, InitLogging obj]\<rparr>)
          | Resolved u' \<Rightarrow>
             (case initThreadPool \<E> (trace w @ [ModuleInit, InitLogging obj])
                     (hardwareConcurrency \<E>) of
                Rejected x \<Rightarrow>
                  (Rejected x,
                   w\<lparr>trace := trace w @ [ModuleInit, InitLogging obj,
                                          InitThreadPool (hardwareConcurrency \<E>),
                                          ConsoleError x]\<rparr>)
              | Pending \<Rightarrow>
                  (Pending,
                   w\<lparr>trace := trace w @ [ModuleInit, InitLogging obj,
                                          InitThreadPool (hardwareConcurrency \<E>)]\<rparr>)
              | Resolved u'' \<Rightarrow>
                  (Resolved JUndefined,
                   w\<lparr>trace := trace w @ [ModuleInit, InitLogging obj,
                                          InitThreadPool (hardwareConcurrency \<E>)]\<rparr>))))"
  by (simp add: Worker_init_def js_defs split: completion.splits)

lemma run_unfold:
  "run \<E> w =
     (case init \<E> (trace w) of
        Resolved u \<Rightarrow>
         (case initThreadPool \<E> (trace w @ [ModuleInit]) (hardwareConcurrency \<E>) of
            Resolved u' \<Rightarrow>
              (case wasm_start \<E> (trace w @ [ModuleInit, InitThreadPool (hardwareConcurrency \<E>)]) of
                 Resolved u'' \<Rightarrow> Resolved JUndefined
               | r \<Rightarrow> r,
               w\<lparr>trace := trace w @ [ModuleInit, InitThreadPool (hardwareConcurrency \<E>),
                                      WasmStart]\<rparr>)
          | r \<Rightarrow> (r, w\<lparr>trace := trace w @ [ModuleInit, InitThreadPool (hardwareConcurrency \<E>)]\<rparr>))
      | r \<Rightarrow> (r, w\<lparr>trace := trace w @ [ModuleInit]\<rparr>))"
  by (simp add: run_def js_defs split: completion.splits)

section \<open>run before init\<close>

text \<open>
  C1 as stated fails. On a worker on which \<open>init\<close> was never called (no call at all has
  been made), \<open>run\<close> is not rejected: it calls \<^verbatim>\<open>wasm_main\<close> at once and, the engine
  answering, is fulfilled. The class keeps no state that \<open>run\<close> could test.
\<close>

theorem run_before_init_counterexample:
  "fst (Worker_run engine_ok (JStr ''example.com'') (JNum 8080) (JNum 443) (JNum 9001) (JNum 9002)
          new_Worker) = Resolved JUndefined
   \<and> trace (snd (Worker_run engine_ok (JStr ''example.com'') (JNum 8080) (JNum 443) (JNum 9001)
                   (JNum 9002) new_Worker))
       = [WasmMain [JStr ''example.com'', JNum 8080, JNum 443, JNum 9001, JNum 9002]]"
  by (simp add: Worker_run_unfold engine_ok_def new_Worker_def)

text \<open>
  C1, amended. \<open>run\<close> has no readiness check. Called before any \<open>init\<close> has requested the
  thread pool, it still invokes \<^verbatim>\<open>wasm_main\<close> with its arguments as its first action;
  it is rejected exactly when \<^verbatim>\<open>wasm_main\<close> is rejected, with the same error, and it is
  fulfilled exactly when \<^verbatim>\<open>wasm_main\<close> is fulfilled.
\<close>

theorem run_before_init_calls_wasm_main:
  assumes "filter is_InitThreadPool (trace w) = []"
  shows "take 1 (emitted (trace w) (snd (Worker_run \<E> a b c d e w))) = [WasmMain [a, b, c, d, e]]
     \<and> (fst (Worker_run \<E> a b c d e w) = Rejected x)
         = (wasm_main \<E> (trace w) [a, b, c, d, e] = Rejected x)
     \<and> is_Resolved (fst (Worker_run \<E> a b c d e w))
         = is_Resolved (wasm_main \<E> (trace w) [a, b, c, d, e])"
  by (cases "wasm_main \<E> (trace w) [a, b, c, d, e]") (simp_all add: Worker_run_unfold emitted_def)

theorem run_before_init_calls_wasm_main_witness:
  "filter is_InitThreadPool (trace new_Worker) = []
   \<and> take 1 (emitted (trace new_Worker)
        (snd (Worker_run engine_failing (JStr ''example.com'') (JNum 8080) (JNum 443)
               (JNum 9001) (JNum 9002) new_Worker)))
       = [WasmMain [JStr ''example.com'', JNum 8080, JNum 443, JNum 9001, JNum 9002]]
   \<and> fst (Worker_run engine_failing (JStr ''example.com'') (JNum 8080) (JNum 443)
               (JNum 9001) (JNum 9002) new_Worker) = Rejected (JStr ''ConnectionRefused'')"
proof -
  have h: "filter is_InitThreadPool (trace new_Worker) = []"
    by (simp add: new_Worker_def)
  have m: "wasm_main engine_failing (trace new_Worker)
             [JStr ''example.com'', JNum 8080, JNum 443, JNum 9001, JNum 9002]
           = Rejected (JStr ''ConnectionRefused'')"
    by (simp add: engine_defs)
  show ?thesis
    using h m run_before_init_calls_wasm_main [OF h, of engine_failing]
    by simp
qed

section \<open>run: the hand-off to the engine\<close>

text \<open>
  C2. \<open>run\<close> hands its five parameters to \<^verbatim>\<open>wasm_main\<close> unchanged and in the order
  received: whatever the engine answers, the first thing \<open>run\<close> does is the call
  \<^verbatim>\<open>wasm_main(ws_ip, ws_port, wasm_to_server_port, wasm_to_verifier_port,
  wasm_to_native_port)\<close>, and it is the only call of \<^verbatim>\<open>wasm_main\<close> (indeed the only call
  into the engine) that \<open>run\<close> makes.
\<close>

theorem run_hands_parameters_to_wasm_main:
  "take 1 (emitted (trace w) (snd (Worker_run \<E> a b c d e w))) = [WasmMain [a, b, c, d, e]]
   \<and> filter is_WasmMain (emitted (trace w) (snd (Worker_run \<E> a b c d e w)))
       = [WasmMain [a, b, c, d, e]]
   \<and> filter (\<lambda>ev. \<not> is_ConsoleError ev) (emitted (trace w) (snd (Worker_run \<E> a b c d e w)))
       = [WasmMain [a, b, c, d, e]]"
  by (cases "wasm_main \<E> (trace w) [a, b, c, d, e]")
     (simp_all add: Worker_run_unfold emitted_def)

section \<open>What run resolves with\<close>

text \<open>
  C3 as stated fails. After a successful \<open>init\<close>, an engine whose \<^verbatim>\<open>wasm_main\<close> is
  fulfilled with \<^verbatim>\<open>"session-done"\<close> makes \<open>run\<close> fulfil with \<^verbatim>\<open>undefined\<close>: the body
  awaits the call and returns nothing.
\<close>

theorem run_result_counterexample:
  "is_Resolved (fst (Worker_init engine_result new_Worker))
   \<and> wasm_main engine_result (trace (snd (Worker_init engine_result new_Worker)))
        [JStr ''example.com'', JNum 8080, JNum 443, JNum 9001, JNum 9002]
       = Resolved (JStr ''session-done'')
   \<and> fst (Worker_run engine_result (JStr ''example.com'') (JNum 8080) (JNum 443) (JNum 9001)
            (JNum 9002) (snd (Worker_init engine_result new_Worker)))
       = Resolved JUndefined
   \<and> Resolved JUndefined \<noteq> Resolved (JStr ''session-done'')"
  by (simp add: Worker_run_unfold Worker_init_unfold engine_defs new_Worker_def)

text \<open>
  C3, amended. When \<^verbatim>\<open>wasm_main\<close> completes successfully, with whatever value, \<open>run\<close>
  resolves with \<^verbatim>\<open>undefined\<close>: the session-completion value is dropped.
\<close>

theorem run_resolves_with_undefined:
  assumes "wasm_main \<E> (trace w) [a, b, c, d, e] = Resolved v"
  shows "fst (Worker_run \<E> a b c d e w) = Resolved JUndefined"
  using assms by (simp add: Worker_run_unfold)

theorem run_resolves_with_undefined_witness:
  "wasm_main engine_result (trace new_Worker)
      [JStr ''example.com'', JNum 8080, JNum 443, JNum 9001, JNum 9002]
     = Resolved (JStr ''session-done'')
   \<and> fst (Worker_run engine_result (JStr ''example.com'') (JNum 8080) (JNum 443) (JNum 9001)
            (JNum 9002) new_Worker) = Resolved JUndefined"
proof -
  have m: "wasm_main engine_result (trace new_Worker)
      [JStr ''example.com'', JNum 8080, JNum 443, JNum 9001, JNum 9002]
     = Resolved (JStr ''session-done'')"
    by (simp add: engine_defs)
  from run_resolves_with_undefined [OF m] m show ?thesis by simp
qed

section \<open>Errors\<close>

text \<open>
  C4. Every exception raised inside \<open>init\<close> (by the module load, the logging install or
  the pool start) or inside \<open>run\<close> (by the engine session) is caught, logged once with
  \<^verbatim>\<open>console.error\<close> as the last thing the operation does, and rethrown: the caller sees
  the call rejected with that very value.
\<close>

theorem errors_are_logged_and_rethrown:
  "(raised_in_init \<E> w x \<longrightarrow>
      fst (Worker_init \<E> w) = Rejected x
      \<and> last (trace (snd (Worker_init \<E> w))) = ConsoleError x
      \<and> filter is_ConsoleError (emitted (trace w) (snd (Worker_init \<E> w))) = [ConsoleError x])
   \<and> (wasm_main \<E> (trace w') [a, b, c, d, e] = Rejected y \<longrightarrow>
      fst (Worker_run \<E> a b c d e w') = Rejected y
      \<and> last (trace (snd (Worker_run \<E> a b c d e w'))) = ConsoleError y
      \<and> filter is_ConsoleError (emitted (trace w') (snd (Worker_run \<E> a b c d e w')))
          = [ConsoleError y])"
proof (intro conjI impI)
  assume "raised_in_init \<E> w x"
  then consider
      (load) "init \<E> (trace w) = Rejected x"
    | (logging) u where "init \<E> (trace w) = Resolved u"
        "init_logging \<E> (trace w @ [ModuleInit]) obj = Rejected x"
    | (pool) u u' where "init \<E> (trace w) = Resolved u"
        "init_logging \<E> (trace w @ [ModuleInit]) obj = Resolved u'"
        "initThreadPool \<E> (trace w @ [ModuleInit, InitLogging obj]) (hardwareConcurrency \<E>)
           = Rejected x"
    by (auto simp: raised_in_init_def is_Resolved_def)
  then have "fst (Worker_init \<E> w) = Rejected x
     \<and> last (trace (snd (Worker_init \<E> w))) = ConsoleError x
     \<and> filter is_ConsoleError (emitted (trace w) (snd (Worker_init \<E> w))) = [ConsoleError x]"
    by cases (simp_all add: Worker_init_unfold emitted_def)
  then show "fst (Worker_init \<E> w) = Rejected x"
    and "last (trace (snd (Worker_init \<E> w))) = ConsoleError x"
    and "filter is_ConsoleError (emitted (trace w) (snd (Worker_init \<E> w))) = [ConsoleError x]"
    by simp_all
next
  assume "wasm_main \<E> (trace w') [a, b, c, d, e] = Rejected y"
  then show "fst (Worker_run \<E> a b c d e w') = Rejected y"
    and "last (trace (snd (Worker_run \<E> a b c d e w'))) = ConsoleError y"
    and "filter is_ConsoleError (emitted (trace w') (snd (Worker_run \<E> a b c d e w')))
          = [ConsoleError y]"
    by (simp_all add: Worker_run_unfold emitted_def)
qed

theorem errors_are_logged_and_rethrown_witness:
  "raised_in_init engine_failing new_Worker (JStr ''PoolStartFailed'')
   \<and> Worker_init engine_failing new_Worker
       = (Rejected (JStr ''PoolStartFailed''),
          \<lparr>trace = [ModuleInit, InitLogging obj, InitThreadPool (JNum 8),
                    ConsoleError (JStr ''PoolStartFailed'')],
           this_props = []\<rparr>)
   \<and> wasm_main engine_failing (trace new_Worker) [JStr ''example.com'', JNum 8080, JNum 443,
        JNum 9001, JNum 9002] = Rejected (JStr ''ConnectionRefused'')
   \<and> fst (Worker_run engine_failing (JStr ''example.com'') (JNum 8080) (JNum 443) (JNum 9001)
            (JNum 9002) new_Worker) = Rejected (JStr ''ConnectionRefused'')
   \<and> last (trace (snd (Worker_run engine_failing (JStr ''example.com'') (JNum 8080) (JNum 443)
            (JNum 9001) (JNum 9002) new_Worker))) = ConsoleError (JStr ''ConnectionRefused'')
   \<and> raised_in_init engine_no_module new_Worker (JStr ''CompileError'')
   \<and> fst (Worker_init engine_no_module new_Worker) = Rejected (JStr ''CompileError'')
   \<and> last (trace (snd (Worker_init engine_no_module new_Worker)))
       = ConsoleError (JStr ''CompileError'')
   \<and> raised_in_init engine_no_logging new_Worker (JStr ''LoggingFailed'')
   \<and> fst (Worker_init engine_no_logging new_Worker) = Rejected (JStr ''LoggingFailed'')
   \<and> last (trace (snd (Worker_init engine_no_logging new_Worker)))
       = ConsoleError (JStr ''LoggingFailed'')"
proof -
  have p: "raised_in_init engine_failing new_Worker (JStr ''PoolStartFailed'')"
    by (simp add: raised_in_init_def engine_defs new_Worker_def)
  have m: "wasm_main engine_failing (trace new_Worker) [JStr ''example.com'', JNum 8080,
      JNum 443, JNum 9001, JNum 9002] = Rejected (JStr ''ConnectionRefused'')"
    by (simp add: engine_defs)
  have l: "raised_in_init engine_no_module new_Worker (JStr ''CompileError'')"
    by (simp add: raised_in_init_def engine_defs new_Worker_def)
  have g: "raised_in_init engine_no_logging new_Worker (JStr ''LoggingFailed'')"
    by (simp add: raised_in_init_def engine_defs new_Worker_def)
  have t: "Worker_init engine_failing new_Worker
       = (Rejected (JStr ''PoolStartFailed''),
          \<lparr>trace = [ModuleInit, InitLogging obj, InitThreadPool (JNum 8),
                    ConsoleError (JStr ''PoolStartFailed'')],
           this_props = []\<rparr>)"
    by (simp add: Worker_init_unfold engine_defs new_Worker_def)
  show ?thesis
    using p m l g t
      errors_are_logged_and_rethrown [of engine_failing new_Worker "JStr ''PoolStartFailed''"
        new_Worker "JStr ''example.com''" "JNum 8080" "JNum 443" "JNum 9001" "JNum 9002"
        "JStr ''ConnectionRefused''"]
      errors_are_logged_and_rethrown [of engine_no_module new_Worker "JStr ''CompileError''"]
      errors_are_logged_and_rethrown [of engine_no_logging new_Worker "JStr ''LoggingFailed''"]
    by simp
qed

section \<open>init: repetition, order, pool size, logging\<close>

text \<open>
  C5 as stated fails. Two \<open>init\<close> calls in a row on an engine whose calls all succeed are
  both fulfilled, and the second one requests the thread pool a second time.
\<close>

theorem second_init_counterexample:
  "fst (Worker_init engine_ok new_Worker) = Resolved JUndefined
   \<and> fst (Worker_init engine_ok (snd (Worker_init engine_ok new_Worker))) = Resolved JUndefined
   \<and> trace (snd (Worker_init engine_ok (snd (Worker_init engine_ok new_Worker))))
       = [ModuleInit, InitLogging obj, InitThreadPool (JNum 8),
          ModuleInit, InitLogging obj, InitThreadPool (JNum 8)]"
  by (simp add: Worker_init_unfold engine_defs new_Worker_def)

text \<open>
  C5, amended. \<open>init\<close> keeps no record of a completed initialization. A second \<open>init\<close>
  after a successful first one repeats its steps, and whenever the module load and the
  logging install of that second call complete, it invokes \<^verbatim>\<open>initThreadPool\<close> again with
  the host-reported concurrency: the two calls together request the pool twice.
\<close>

theorem second_init_starts_pool_again:
  assumes "is_Resolved (fst (Worker_init \<E> w))"
    and "w1 = snd (Worker_init \<E> w)"
    and "is_Resolved (init \<E> (trace w1))"
    and "is_Resolved (init_logging \<E> (trace w1 @ [ModuleInit]) obj)"
  shows "filter is_InitThreadPool (emitted (trace w) w1) = [InitThreadPool (hardwareConcurrency \<E>)]
     \<and> filter is_InitThreadPool (emitted (trace w1) (snd (Worker_init \<E> w1)))
         = [InitThreadPool (hardwareConcurrency \<E>)]
     \<and> filter is_InitThreadPool (emitted (trace w) (snd (Worker_init \<E> w1)))
         = [InitThreadPool (hardwareConcurrency \<E>), InitThreadPool (hardwareConcurrency \<E>)]"
proof -
  have first: "trace w1 = trace w @ [ModuleInit, InitLogging obj,
      InitThreadPool (hardwareConcurrency \<E>)]"
    using assms(1,2)
    by (auto simp: Worker_init_unfold split: completion.splits)
  obtain tl where second: "trace (snd (Worker_init \<E> w1))
      = trace w1 @ [ModuleInit, InitLogging obj, InitThreadPool (hardwareConcurrency \<E>)] @ tl"
    and tl: "filter is_InitThreadPool tl = []"
    using assms(3,4)
    by (cases "initThreadPool \<E> (trace w1 @ [ModuleInit, InitLogging obj])
                 (hardwareConcurrency \<E>)")
       (auto simp: Worker_init_unfold is_Resolved_def)
  show ?thesis
    using tl by (simp add: emitted_def first second)
qed

theorem second_init_starts_pool_again_witness:
  "is_Resolved (fst (Worker_init engine_ok new_Worker))
   \<and> is_Resolved (init engine_ok (trace (snd (Worker_init engine_ok new_Worker))))
   \<and> is_Resolved (init_logging engine_ok
         (trace (snd (Worker_init engine_ok new_Worker)) @ [ModuleInit]) obj)
   \<and> filter is_InitThreadPool
        (emitted (trace new_Worker)
           (snd (Worker_init engine_ok (snd (Worker_init engine_ok new_Worker)))))
       = [InitThreadPool (JNum 8), InitThreadPool (JNum 8)]"
proof -
  have a: "is_Resolved (fst (Worker_init engine_ok new_Worker))"
    by (simp add: Worker_init_unfold engine_defs)
  have b: "is_Resolved (init engine_ok (trace (snd (Worker_init engine_ok new_Worker))))"
    by (simp add: engine_defs)
  have c: "is_Resolved (init_logging engine_ok
         (trace (snd (Worker_init engine_ok new_Worker)) @ [ModuleInit]) obj)"
    by (simp add: engine_defs)
  have hc: "hardwareConcurrency engine_ok = JNum 8"
    by (simp add: engine_defs)
  from second_init_starts_pool_again [OF a refl b c] a b c hc show ?thesis
    by simp
qed

text \<open>
  C6. \<open>init\<close> performs its steps in the order module load, logging install, thread pool,
  on a fresh worker and on a used one alike. The module load is its first call. Once
  the module load has completed, the logging install is the next call, and it happens
  in no other case; once both have completed, the pool request is the next call, and it
  happens in no other case. So the calls \<open>init\<close> makes into the engine are exactly the
  steps reached, in this order. \<open>init\<close> returns exactly when all three calls have
  completed, the pool start last, with exactly these three calls made; while the pool
  start has not settled \<open>init\<close> has not settled either.
\<close>

theorem init_step_order:
  "take 1 (emitted (trace w) (snd (Worker_init \<E> w))) = [ModuleInit]
   \<and> (InitLogging c \<in> set (emitted (trace w) (snd (Worker_init \<E> w))) \<longrightarrow>
        is_Resolved (init \<E> (trace w))
        \<and> take 2 (emitted (trace w) (snd (Worker_init \<E> w))) = [ModuleInit, InitLogging c])
   \<and> (InitThreadPool n \<in> set (emitted (trace w) (snd (Worker_init \<E> w))) \<longrightarrow>
        is_Resolved (init \<E> (trace w))
        \<and> is_Resolved (init_logging \<E> (trace w @ [ModuleInit]) obj)
        \<and> take 3 (emitted (trace w) (snd (Worker_init \<E> w)))
            = [ModuleInit, InitLogging obj, InitThreadPool n])
   \<and> (is_Resolved (fst (Worker_init \<E> w)) \<longrightarrow>
        is_Resolved (initThreadPool \<E> (trace w @ [ModuleInit, InitLogging obj])
                       (hardwareConcurrency \<E>))
        \<and> emitted (trace w) (snd (Worker_init \<E> w))
            = [ModuleInit, InitLogging obj, InitThreadPool (hardwareConcurrency \<E>)])
   \<and> (InitThreadPool n \<in> set (emitted (trace w) (snd (Worker_init \<E> w)))
        \<and> initThreadPool \<E> (trace w @ [ModuleInit, InitLogging obj]) (hardwareConcurrency \<E>)
            = Pending \<longrightarrow>
        fst (Worker_init \<E> w) = Pending)
   \<and> (is_Resolved (init \<E> (trace w)) \<longrightarrow>
        take 2 (emitted (trace w) (snd (Worker_init \<E> w))) = [ModuleInit, InitLogging obj])
   \<and> (is_Resolved (init \<E> (trace w))
        \<and> is_Resolved (init_logging \<E> (trace w @ [ModuleInit]) obj) \<longrightarrow>
        take 3 (emitted (trace w) (snd (Worker_init \<E> w)))
          = [ModuleInit, InitLogging obj, InitThreadPool (hardwareConcurrency \<E>)])
   \<and> (is_Resolved (init \<E> (trace w))
        \<and> is_Resolved (init_logging \<E> (trace w @ [ModuleInit]) obj)
        \<and> is_Resolved (initThreadPool \<E> (trace w @ [ModuleInit, InitLogging obj])
                          (hardwareConcurrency \<E>)) \<longrightarrow>
        fst (Worker_init \<E> w) = Resolved JUndefined
        \<and> emitted (trace w) (snd (Worker_init \<E> w))
            = [ModuleInit, InitLogging obj, InitThreadPool (hardwareConcurrency \<E>)])
   \<and> filter (\<lambda>ev. \<not> is_ConsoleError ev) (emitted (trace w) (snd (Worker_init \<E> w)))
       = ModuleInit #
         (if is_Resolved (init \<E> (trace w))
          then InitLogging obj #
            (if is_Resolved (init_logging \<E> (trace w @ [ModuleInit]) obj)
             then [InitThreadPool (hardwareConcurrency \<E>)] else [])
          else [])"
proof -
  let ?em = "emitted (trace w) (snd (Worker_init \<E> w))"
  let ?hc = "hardwareConcurrency \<E>"
  let ?load = "init \<E> (trace w)"
  let ?logging = "init_logging \<E> (trace w @ [ModuleInit]) obj"
  let ?pool = "initThreadPool \<E> (trace w @ [ModuleInit, InitLogging obj]) ?hc"
  have first: "take 1 ?em = [ModuleInit]"
    by (simp add: Worker_init_unfold emitted_def split: completion.splits)
  have logging: "is_Resolved ?load \<and> take 2 ?em = [ModuleInit, InitLogging c]"
    if "InitLogging c \<in> set ?em"
    using that by (auto simp: Worker_init_unfold emitted_def split: completion.splits)
  have pool: "is_Resolved ?load \<and> is_Resolved ?logging
        \<and> take 3 ?em = [ModuleInit, InitLogging obj, InitThreadPool n]"
    if "InitThreadPool n \<in> set ?em"
    using that by (auto simp: Worker_init_unfold emitted_def split: completion.splits)
  have returns: "is_Resolved ?pool \<and> ?em = [ModuleInit, InitLogging obj, InitThreadPool ?hc]"
    if "is_Resolved (fst (Worker_init \<E> w))"
    using that by (auto simp: Worker_init_unfold emitted_def split: completion.splits)
  have suspends: "fst (Worker_init \<E> w) = Pending"
    if "InitThreadPool n \<in> set ?em" and "?pool = Pending"
    using that by (auto simp: Worker_init_unfold emitted_def split: completion.splits)
  have step2: "take 2 ?em = [ModuleInit, InitLogging obj]" if "is_Resolved ?load"
  proof -
    from that obtain u where "?load = Resolved u"
      by (auto simp: is_Resolved_def)
    then show ?thesis
      by (simp add: Worker_init_unfold emitted_def split: completion.splits)
  qed
  have step3: "take 3 ?em = [ModuleInit, InitLogging obj, InitThreadPool ?hc]"
    if "is_Resolved ?load" and "is_Resolved ?logging"
  proof -
    from that obtain u u' where "?load = Resolved u" and "?logging = Resolved u'"
      by (auto simp: is_Resolved_def)
    then show ?thesis
      by (simp add: Worker_init_unfold emitted_def split: completion.splits)
  qed
  have finished: "fst (Worker_init \<E> w) = Resolved JUndefined
        \<and> ?em = [ModuleInit, InitLogging obj, InitThreadPool ?hc]"
    if "is_Resolved ?load" and "is_Resolved ?logging" and "is_Resolved ?pool"
  proof -
    from that obtain u u' u'' where "?load = Resolved u" and "?logging = Resolved u'"
      and "?pool = Resolved u''"
      by (auto simp: is_Resolved_def)
    then show ?thesis
      by (simp add: Worker_init_unfold emitted_def)
  qed
  have calls: "filter (\<lambda>ev. \<not> is_ConsoleError ev) ?em
       = ModuleInit #
         (if is_Resolved ?load
          then InitLogging obj # (if is_Resolved ?logging then [InitThreadPool ?hc] else [])
          else [])"
    by (simp add: Worker_init_unfold emitted_def split: completion.splits)
  show ?thesis
    apply (intro conjI)
    subgoal by (rule first)
    subgoal using logging by blast
    subgoal using pool by blast
    subgoal using returns by blast
    subgoal using suspends by blast
    subgoal using step2 by blast
    subgoal using step3 by blast
    subgoal using finished by blast
    subgoal by (rule calls)
    done
qed

theorem init_step_order_witness:
  "emitted (trace new_Worker) (snd (Worker_init engine_ok new_Worker))
     = [ModuleInit, InitLogging obj, InitThreadPool (JNum 8)]
   \<and> is_Resolved (fst (Worker_init engine_ok new_Worker))
   \<and> is_Resolved (init engine_ok (trace new_Worker))
   \<and> is_Resolved (init_logging engine_ok (trace new_Worker @ [ModuleInit]) obj)
   \<and> is_Resolved (initThreadPool engine_ok (trace new_Worker @ [ModuleInit, InitLogging obj])
                    (hardwareConcurrency engine_ok))
   \<and> InitThreadPool (JNum 8)
        \<in> set (emitted (trace new_Worker) (snd (Worker_init engine_pool_pending new_Worker)))
   \<and> initThreadPool engine_pool_pending (trace new_Worker @ [ModuleInit, InitLogging obj])
        (hardwareConcurrency engine_pool_pending) = Pending
   \<and> fst (Worker_init engine_pool_pending new_Worker) = Pending
   \<and> is_Resolved (init engine_ok (trace (snd (Worker_init engine_ok new_Worker))))
   \<and> is_Resolved (init_logging engine_ok
        (trace (snd (Worker_init engine_ok new_Worker)) @ [ModuleInit]) obj)
   \<and> is_Resolved (initThreadPool engine_ok
        (trace (snd (Worker_init engine_ok new_Worker)) @ [ModuleInit, InitLogging obj])
        (hardwareConcurrency engine_ok))
   \<and> fst (Worker_init engine_ok (snd (Worker_init engine_ok new_Worker))) = Resolved JUndefined
   \<and> emitted (trace (snd (Worker_init engine_ok new_Worker)))
        (snd (Worker_init engine_ok (snd (Worker_init engine_ok new_Worker))))
       = [ModuleInit, InitLogging obj, InitThreadPool (JNum 8)]
   \<and> filter (\<lambda>ev. \<not> is_ConsoleError ev)
        (emitted (trace new_Worker) (snd (Worker_init engine_no_logging new_Worker)))
       = [ModuleInit, InitLogging obj]"
proof -
  let ?used = "snd (Worker_init engine_ok new_Worker)"
  have hc: "hardwareConcurrency engine_ok = JNum 8"
    by (simp add: engine_defs)
  have fresh: "is_Resolved (init engine_ok (trace new_Worker))"
    "is_Resolved (init_logging engine_ok (trace new_Worker @ [ModuleInit]) obj)"
    "is_Resolved (initThreadPool engine_ok (trace new_Worker @ [ModuleInit, InitLogging obj])
        (hardwareConcurrency engine_ok))"
    by (simp_all add: engine_defs)
  have again: "is_Resolved (init engine_ok (trace ?used))"
    "is_Resolved (init_logging engine_ok (trace ?used @ [ModuleInit]) obj)"
    "is_Resolved (initThreadPool engine_ok (trace ?used @ [ModuleInit, InitLogging obj])
        (hardwareConcurrency engine_ok))"
    by (simp_all add: engine_defs)
  have reached: "InitThreadPool (JNum 8)
        \<in> set (emitted (trace new_Worker) (snd (Worker_init engine_pool_pending new_Worker)))"
    by (simp add: Worker_init_unfold emitted_def engine_defs new_Worker_def)
  have pending: "initThreadPool engine_pool_pending
        (trace new_Worker @ [ModuleInit, InitLogging obj])
        (hardwareConcurrency engine_pool_pending) = Pending"
    by (simp add: engine_defs)
  have no_logging: "is_Resolved (init engine_no_logging (trace new_Worker))"
    "\<not> is_Resolved (init_logging engine_no_logging (trace new_Worker @ [ModuleInit]) obj)"
    by (simp_all add: engine_defs)
  note on_fresh = init_step_order [of new_Worker engine_ok obj "JNum 8"]
  note on_used = init_step_order [of ?used engine_ok obj "JNum 8"]
  note on_pending = init_step_order [of new_Worker engine_pool_pending obj "JNum 8"]
  note on_no_logging = init_step_order [of new_Worker engine_no_logging obj "JNum 8"]
  note completes = conjunct2 [THEN conjunct2, THEN conjunct2, THEN conjunct2, THEN conjunct2,
      THEN conjunct2, THEN conjunct2, THEN conjunct1, THEN mp]
  note suspends = conjunct2 [THEN conjunct2, THEN conjunct2, THEN conjunct2, THEN conjunct1,
      THEN mp]
  note calls = conjunct2 [THEN conjunct2, THEN conjunct2, THEN conjunct2, THEN conjunct2,
      THEN conjunct2, THEN conjunct2, THEN conjunct2]
  have first_call: "fst (Worker_init engine_ok new_Worker) = Resolved JUndefined
     \<and> emitted (trace new_Worker) (snd (Worker_init engine_ok new_Worker))
         = [ModuleInit, InitLogging obj, InitThreadPool (JNum 8)]"
    using completes [OF on_fresh conjI [OF fresh(1) conjI [OF fresh(2) fresh(3)]]]
    by (simp only: hc)
  have second_call: "fst (Worker_init engine_ok ?used) = Resolved JUndefined
     \<and> emitted (trace ?used) (snd (Worker_init engine_ok ?used))
         = [ModuleInit, InitLogging obj, InitThreadPool (JNum 8)]"
    using completes [OF on_used conjI [OF again(1) conjI [OF again(2) again(3)]]]
    by (simp only: hc)
  have stalled: "fst (Worker_init engine_pool_pending new_Worker) = Pending"
    by (rule suspends [OF on_pending conjI [OF reached pending]])
  have cut: "filter (\<lambda>ev. \<not> is_ConsoleError ev)
        (emitted (trace new_Worker) (snd (Worker_init engine_no_logging new_Worker)))
       = [ModuleInit, InitLogging obj]"
    using calls [OF on_no_logging] by (simp only: no_logging if_True if_False)
  have ok: "is_Resolved (fst (Worker_init engine_ok new_Worker))"
    by (simp only: first_call completion.disc)
  show ?thesis
    by (intro conjI first_call [THEN conjunct2] ok fresh reached pending stalled again
        second_call [THEN conjunct1] second_call [THEN conjunct2] cut)
qed

text \<open>
  C7. Every successful \<open>init\<close> requests the thread pool exactly once, with the size
  \<^verbatim>\<open>navigator.hardwareConcurrency\<close>.
\<close>

theorem init_requests_pool_of_host_concurrency:
  assumes "is_Resolved (fst (Worker_init \<E> w))"
  shows "filter is_InitThreadPool (emitted (trace w) (snd (Worker_init \<E> w)))
           = [InitThreadPool (hardwareConcurrency \<E>)]"
  using assms by (auto simp: Worker_init_unfold emitted_def split: completion.splits)

theorem init_requests_pool_of_host_concurrency_witness:
  "is_Resolved (fst (Worker_init (engine_ok\<lparr>hardwareConcurrency := JNum 12\<rparr>) new_Worker))
   \<and> filter is_InitThreadPool
        (emitted (trace new_Worker)
           (snd (Worker_init (engine_ok\<lparr>hardwareConcurrency := JNum 12\<rparr>) new_Worker)))
       = [InitThreadPool (JNum 12)]"
proof -
  have ok: "is_Resolved (fst (Worker_init (engine_ok\<lparr>hardwareConcurrency := JNum 12\<rparr>) new_Worker))"
    by (simp add: Worker_init_unfold engine_defs)
  from init_requests_pool_of_host_concurrency [OF ok] ok show ?thesis
    by simp
qed

text \<open>
  C8 as stated fails. \<open>init\<close> has no parameter, so no configuration is supplied to it;
  on an engine whose calls all succeed it nevertheless installs logging, with the
  configuration written in its body.
\<close>

theorem init_logging_counterexample:
  "fst (Worker_init engine_ok new_Worker) = Resolved JUndefined
   \<and> filter is_tracing_install (trace (snd (Worker_init engine_ok new_Worker)))
       = [InitLogging (JObj [(''level'', JStr ''Trace''), (''crate_filters'', JUndefined),
                             (''span_events'', JUndefined)])]"
  by (simp add: Worker_init_unfold engine_defs new_Worker_def obj_def)

text \<open>
  C8, amended. \<open>init\<close> takes no configuration and the install is not optional: whenever
  the module load completes, \<open>init\<close> calls \<^verbatim>\<open>init_logging\<close> exactly once with the fixed
  object \<^verbatim>\<open>{level: 'Trace', crate_filters: undefined, span_events: undefined}\<close>; it
  makes no logging install call only when the module load fails or never completes.
  \<^verbatim>\<open>setup_tracing_web\<close> is never called.
\<close>

theorem init_installs_fixed_logging:
  "filter is_tracing_install (emitted (trace w) (snd (Worker_init \<E> w)))
     = (if is_Resolved (init \<E> (trace w)) then [InitLogging obj] else [])"
  by (simp add: Worker_init_unfold emitted_def split: completion.splits)

theorem init_installs_fixed_logging_witness:
  "filter is_tracing_install (emitted (trace new_Worker) (snd (Worker_init engine_failing new_Worker)))
     = [InitLogging obj]
   \<and> filter is_tracing_install
        (emitted (trace new_Worker) (snd (Worker_init engine_no_module new_Worker))) = []"
  using init_installs_fixed_logging [of new_Worker engine_failing]
    init_installs_fixed_logging [of new_Worker engine_no_module]
  by (simp add: engine_defs)

section \<open>The frame of a failed run\<close>

text \<open>
  C9. A \<open>run\<close> call that fails changes no property of the worker instance. All it does
  is the call of \<^verbatim>\<open>wasm_main\<close> and the logging of the error it rethrows; it makes no
  call that loads the module or touches the thread pool.
\<close>

theorem failed_run_leaves_worker_unchanged:
  assumes "fst (Worker_run \<E> a b c d e w) = Rejected x"
  shows "this_props (snd (Worker_run \<E> a b c d e w)) = this_props w
     \<and> emitted (trace w) (snd (Worker_run \<E> a b c d e w))
         = [WasmMain [a, b, c, d, e], ConsoleError x]
     \<and> snd (Worker_run \<E> a b c d e w)
         = w\<lparr>trace := trace w @ [WasmMain [a, b, c, d, e], ConsoleError x]\<rparr>"
  using assms by (auto simp: Worker_run_unfold emitted_def split: completion.splits)

theorem failed_run_leaves_worker_unchanged_witness:
  "fst (Worker_run engine_failing (JStr ''example.com'') (JNum 8080) (JNum 443) (JNum 9001)
          (JNum 9002) (snd (Worker_init engine_ok new_Worker)))
     = Rejected (JStr ''ConnectionRefused'')
   \<and> this_props (snd (Worker_run engine_failing (JStr ''example.com'') (JNum 8080) (JNum 443)
          (JNum 9001) (JNum 9002) (snd (Worker_init engine_ok new_Worker))))
       = this_props (snd (Worker_init engine_ok new_Worker))
   \<and> trace (snd (Worker_run engine_failing (JStr ''example.com'') (JNum 8080) (JNum 443)
          (JNum 9001) (JNum 9002) (snd (Worker_init engine_ok new_Worker))))
       = [ModuleInit, InitLogging obj, InitThreadPool (JNum 8),
          WasmMain [JStr ''example.com'', JNum 8080, JNum 443, JNum 9001, JNum 9002],
          ConsoleError (JStr ''ConnectionRefused'')]"
proof -
  have failed: "fst (Worker_run engine_failing (JStr ''example.com'') (JNum 8080) (JNum 443)
      (JNum 9001) (JNum 9002) (snd (Worker_init engine_ok new_Worker)))
     = Rejected (JStr ''ConnectionRefused'')"
    by (simp add: Worker_run_unfold engine_defs)
  have before: "trace (snd (Worker_init engine_ok new_Worker))
     = [ModuleInit, InitLogging obj, InitThreadPool (JNum 8)]"
    by (simp add: Worker_init_unfold engine_defs new_Worker_def)
  from failed_run_leaves_worker_unchanged [OF failed] failed before show ?thesis
    by simp
qed

section \<open>The bootstrap script\<close>

text \<open>
  C10. The bootstrap script starts itself: evaluating it calls its \<open>run\<close>, which calls
  the module's \<^verbatim>\<open>init\<close>, then \<^verbatim>\<open>initThreadPool(navigator.hardwareConcurrency)\<close>, then
  \<^verbatim>\<open>wasm_start\<close>, each only after the one before has completed. It installs no
  tracing and handles no error: nothing is logged, and a rejected call rejects \<open>run\<close>
  with the same value.
\<close>

theorem bootstrap_script_order:
  "emitted (trace w) (prover_worker_script \<E> w)
     = ModuleInit #
       (if is_Resolved (init \<E> (trace w))
        then InitThreadPool (hardwareConcurrency \<E>) #
          (if is_Resolved (initThreadPool \<E> (trace w @ [ModuleInit]) (hardwareConcurrency \<E>))
           then [WasmStart] else [])
        else [])
   \<and> filter is_tracing_install (emitted (trace w) (prover_worker_script \<E> w)) = []
   \<and> filter is_ConsoleError (emitted (trace w) (prover_worker_script \<E> w)) = []
   \<and> this_props (prover_worker_script \<E> w) = this_props w
   \<and> (fst (run \<E> w) = Rejected x) =
       (init \<E> (trace w) = Rejected x
        \<or> is_Resolved (init \<E> (trace w))
          \<and> (initThreadPool \<E> (trace w @ [ModuleInit]) (hardwareConcurrency \<E>) = Rejected x
             \<or> is_Resolved (initThreadPool \<E> (trace w @ [ModuleInit]) (hardwareConcurrency \<E>))
               \<and> wasm_start \<E> (trace w @ [ModuleInit, InitThreadPool (hardwareConcurrency \<E>)])
                   = Rejected x))"
  by (auto simp: prover_worker_script_def run_unfold emitted_def split: completion.splits)

theorem bootstrap_script_order_witness:
  "emitted [] (prover_worker_script engine_ok \<lparr>trace = [], this_props = []\<rparr>)
     = [ModuleInit, InitThreadPool (JNum 8), WasmStart]
   \<and> emitted [] (prover_worker_script engine_failing \<lparr>trace = [], this_props = []\<rparr>)
     = [ModuleInit, InitThreadPool (JNum 8)]
   \<and> fst (run engine_failing \<lparr>trace = [], this_props = []\<rparr>) = Rejected (JStr ''PoolStartFailed'')"
  using bootstrap_script_order [of "\<lparr>trace = [], this_props = []\<rparr>" engine_ok]
    bootstrap_script_order [of "\<lparr>trace = [], this_props = []\<rparr>" engine_failing
      "JStr ''PoolStartFailed''"]
  by (simp add: engine_defs)

end
